theory Spec2Isabelle
  imports Complex_Main "HOL-Library.Sublist"
begin

section \<open>The xrdcp copy tool of the pilot: a model of \<^verbatim>\<open>pilot/copytool/xrdcp.py\<close>\<close>

subsection \<open>Python values and string helpers\<close>

text \<open>
  The values the module puts into tuples and into the trace report: \<^verbatim>\<open>None\<close>, integers,
  strings and the floats that \<^verbatim>\<open>time()\<close> returns. A Python tuple is the list of its
  components, so that a tuple of two and a tuple of three are different values, as
  they are for the unpacking assignment of \<^verbatim>\<open>_stagefile\<close>.
\<close>

datatype pyval = PyNone | PyInt int | PyStr string | PyFloat real

text \<open>\<^verbatim>\<open>sub in s\<close> on strings: \<^verbatim>\<open>sub\<close> occurs in \<^verbatim>\<open>s\<close> as a contiguous block.\<close>

fun py_in :: "string \<Rightarrow> string \<Rightarrow> bool" where
  "py_in sub [] = (sub = [])"
| "py_in sub (c # cs) = (prefix sub (c # cs) \<or> py_in sub cs)"

text \<open>
  \<^verbatim>\<open>str.zfill(width)\<close>: zeros are added on the left up to the width, after a leading sign
  when there is one; a string that is already long enough is returned as it is.
\<close>

definition zfill :: "nat \<Rightarrow> string \<Rightarrow> string" where
  "zfill width s =
     (if width \<le> length s then s
      else (case s of
              c # cs \<Rightarrow>
                if c = CHR ''+'' \<or> c = CHR ''-''
                then c # replicate (width - length s) CHR ''0'' @ cs
                else replicate (width - length s) CHR ''0'' @ s
            | [] \<Rightarrow> replicate width CHR ''0''))"

definition is_digit :: "char \<Rightarrow> bool" where
  "is_digit c = (c \<in> set ''0123456789'')"

definition is_alnum :: "char \<Rightarrow> bool" where
  "is_alnum c =
     (c \<in> set ''abcdefghijklmnopqrstuvwxyzABCDEFGHIJKLMNOPQRSTUVWXYZ0123456789'')"

text \<open>
  The class \<^verbatim>\<open>\s\<close> of the \<^verbatim>\<open>re\<close> module on byte strings: space, tab, newline, carriage
  return, form feed and vertical tab. \<^verbatim>\<open>\S\<close> is its complement.
\<close>

definition is_space :: "char \<Rightarrow> bool" where
  "is_space c = (c \<in> {CHR '' '', CHR 0x09, CHR 0x0A, CHR 0x0B, CHR 0x0C, CHR 0x0D})"

definition is_nonspace :: "char \<Rightarrow> bool" where
  "is_nonspace c = (\<not> is_space c)"

definition digit_val :: "char \<Rightarrow> int" where
  "digit_val c = int (of_char c) - 48"

text \<open>
  \<^verbatim>\<open>int(s)\<close> on a string of decimal digits. The only string the module converts is the
  text of the group \<^verbatim>\<open>[0-9]+\<close>; on anything else the model reports the \<^verbatim>\<open>ValueError\<close>
  as \<open>None\<close>.
\<close>

definition py_int :: "string \<Rightarrow> int option" where
  "py_int s =
     (if s \<noteq> [] \<and> (\<forall>c \<in> set s. is_digit c)
      then Some (foldl (\<lambda>a c. 10 * a + digit_val c) 0 s)
      else None)"

text \<open>\<^verbatim>\<open>int(x)\<close> on a float rounds towards zero.\<close>

definition py_int_of_float :: "real \<Rightarrow> int" where
  "py_int_of_float x = (if 0 \<le> x then \<lfloor>x\<rfloor> else \<lceil>x\<rceil>)"

text \<open>Python's \<^verbatim>\<open>a or b\<close> on optional strings: \<^verbatim>\<open>None\<close> and the empty string are false.\<close>

definition truthy :: "string option \<Rightarrow> bool" where
  "truthy x = (case x of None \<Rightarrow> False | Some s \<Rightarrow> s \<noteq> [])"

definition py_or :: "string option \<Rightarrow> string option \<Rightarrow> string option" where
  "py_or a b = (if truthy a then a else b)"

subsection \<open>The timeout estimate\<close>

text \<open>
  \<^verbatim>\<open>get_timeout\<close>: five minutes plus one second for each 0.5e6 bytes, at most three
  hours. The quotient is a float division, cut to an integer by \<^verbatim>\<open>int\<close>.
\<close>

definition get_timeout :: "int \<Rightarrow> int" where
  "get_timeout filesize =
     (let timeout_max = 3 * 3600;
          timeout_min = 300;
          timeout = timeout_min + py_int_of_float (real_of_int filesize / 500000)
      in min timeout timeout_max)"

subsection \<open>Regular expressions as the pattern of the module needs them\<close>

text \<open>
  The fragment of \<^verbatim>\<open>re\<close> that the pattern uses: literal text, a greedy \<^verbatim>\<open>+\<close> over a
  character class, alternation, sequence and named groups. The matcher backtracks as
  \<^verbatim>\<open>re\<close> does: alternatives from left to right, a greedy repetition from the longest
  run down to one character, and \<open>k\<close> is what remains to be matched. The groups are an
  association list with the latest binding first.
\<close>

datatype regex =
    Lit string
  | PlusCls "char \<Rightarrow> bool"
  | Alt regex regex
  | Seq regex regex
  | Group string regex

type_synonym groups = "(string \<times> string) list"

fun first_some :: "('a \<Rightarrow> 'b option) \<Rightarrow> 'a list \<Rightarrow> 'b option" where
  "first_some f [] = None"
| "first_some f (x # xs) = (case f x of Some y \<Rightarrow> Some y | None \<Rightarrow> first_some f xs)"

primrec rmatch ::
  "regex \<Rightarrow> string \<Rightarrow> groups \<Rightarrow> (string \<Rightarrow> groups \<Rightarrow> groups option) \<Rightarrow> groups option" where
  "rmatch (Lit l) = (\<lambda>s g k. if prefix l s then k (drop (length l) s) g else None)"
| "rmatch (PlusCls p) =
     (\<lambda>s g k. first_some (\<lambda>n. k (drop n s) g) (rev [1..<Suc (length (takeWhile p s))]))"
| "rmatch (Alt a b) =
     (\<lambda>s g k. case rmatch a s g k of Some m \<Rightarrow> Some m | None \<Rightarrow> rmatch b s g k)"
| "rmatch (Seq a b) = (\<lambda>s g k. rmatch a s g (\<lambda>s' g'. rmatch b s' g' k))"
| "rmatch (Group name r) =
     (\<lambda>s g k. rmatch r s g (\<lambda>s' g'. k s' ((name, take (length s - length s') s) # g')))"

text \<open>\<^verbatim>\<open>re.search\<close>: the first start position, from the left, at which the pattern matches.\<close>

fun re_search :: "regex \<Rightarrow> string \<Rightarrow> groups option" where
  "re_search r [] = rmatch r [] [] (\<lambda>s g. Some g)"
| "re_search r (c # cs) =
     (case rmatch r (c # cs) [] (\<lambda>s g. Some g) of
        Some m \<Rightarrow> Some m
      | None \<Rightarrow> re_search r cs)"

subsection \<open>The output parser\<close>

text \<open>
  \<^verbatim>\<open>(?P<type>md5|adler32):\ (?P<checksum>[a-zA-Z0-9]+)\ \S+\ (?P<filesize>[0-9]+)\<close>
\<close>

definition pattern :: regex where
  "pattern =
     Seq (Group ''type'' (Alt (Lit ''md5'') (Lit ''adler32'')))
    (Seq (Lit '': '')
    (Seq (Group ''checksum'' (PlusCls is_alnum))
    (Seq (Lit '' '')
    (Seq (PlusCls is_nonspace)
    (Seq (Lit '' '')
         (Group ''filesize'' (PlusCls is_digit)))))))"

text \<open>
  \<^verbatim>\<open>get_file_info_from_output\<close>. The two early returns give a tuple of two \<^verbatim>\<open>None\<close>; the
  return at the end gives a tuple of three. Each of the three named groups lies on the
  only path through the pattern, so a match binds them all; the last case of the
  \<open>case\<close> below is there for totality only.
\<close>

definition get_file_info_from_output :: "string \<Rightarrow> pyval list" where
  "get_file_info_from_output output =
     (if output = [] then [PyNone, PyNone]
      else if \<not> (py_in ''xrootd'' output \<or> py_in ''XRootD'' output \<or> py_in ''adler32'' output)
      then [PyNone, PyNone]
      else
        (case re_search pattern output of
           Some m \<Rightarrow>
             (case (map_of m ''type'', map_of m ''checksum'', map_of m ''filesize'') of
                (Some checksum_type, Some checksum, Some filesize) \<Rightarrow>
                  [if filesize \<noteq> []
                   then (case py_int filesize of Some n \<Rightarrow> PyInt n | None \<Rightarrow> PyNone)
                   else PyStr filesize,
                   PyStr (zfill 8 checksum),
                   PyStr checksum_type]
              | _ \<Rightarrow> [PyNone, PyNone, PyNone])
         | None \<Rightarrow> [PyNone, PyNone, PyNone]))"

subsection \<open>Files, errors, the environment and the state of a batch\<close>

text \<open>
  The fields of a \<^verbatim>\<open>FileSpec\<close> that the module reads or writes. A batch is a list of
  such records, one for each position; \<^verbatim>\<open>status\<close> and \<^verbatim>\<open>status_code\<close> are \<open>None\<close>
  until the driver sets them.
\<close>

record FileSpec =
  lfn :: string
  guid :: string
  scope :: string
  dataset :: string
  ddmendpoint :: string
  filesize :: int
  turl :: string
  surl :: string
  workdir :: "string option"
  status :: "string option"
  status_code :: "int option"

text \<open>
  Modelled from the spec: \<^verbatim>\<open>PilotException\<close> (\<^verbatim>\<open>pilot.common.exception\<close>), the typed
  error with its diagnostic message, numeric code and state label;
  \<^verbatim>\<open>get_error_code()\<close> is the code, \<^verbatim>\<open>get('state')\<close> the state label and
  \<^verbatim>\<open>get('error')\<close> the message. \<open>ValueError\<close> is the built-in exception that an
  unpacking assignment raises when the tuple has the wrong number of components.
\<close>

datatype exc = PilotException string int string | ValueError

text \<open>The dictionary \<^verbatim>\<open>resolve_common_transfer_errors\<close> returns.\<close>

record error_info =
  error :: string
  rcode :: int
  state :: string

text \<open>
  What the module takes from outside: \<^verbatim>\<open>execute\<close> (the result of a command may depend
  on the commands run before it), the classifier of \<^verbatim>\<open>copytool/common.py\<close>, the
  direct-access predicate of the file, \<^verbatim>\<open>PilotException.get_detail\<close>, the clock (the
  value of the n-th call of \<^verbatim>\<open>time()\<close>), the constants of \<^verbatim>\<open>ErrorCodes\<close> and the
  environment variable \<^verbatim>\<open>DQ2_LOCAL_SITE_ID\<close>.
\<close>

record env =
  execute :: "string list \<Rightarrow> string \<Rightarrow> int \<times> string \<times> string"
  resolve_common_transfer_errors :: "string \<Rightarrow> bool \<Rightarrow> error_info"
  is_directaccess :: "FileSpec \<Rightarrow> bool"
  get_detail :: "string \<Rightarrow> int \<Rightarrow> string \<Rightarrow> string"
  time :: "nat \<Rightarrow> real"
  STAGEINFAILED :: int
  STAGEOUTFAILED :: int
  GETADMISMATCH :: int
  PUTADMISMATCH :: int
  DQ2_LOCAL_SITE_ID :: "string option"

text \<open>The keyword arguments that \<^verbatim>\<open>copy_in\<close> and \<^verbatim>\<open>copy_out\<close> read.\<close>

record kwargs =
  allow_direct_access :: "bool option"
  copytools_xrdcp_setup :: "string option"
  kw_workdir :: "string option"

text \<open>
  The state a batch call works on: the commands given to \<^verbatim>\<open>execute\<close> so far, the number
  of calls of \<^verbatim>\<open>time()\<close>, the fields of the trace report, the events \<^verbatim>\<open>send()\<close> has
  flushed, and the local variable \<^verbatim>\<open>localsite\<close> of \<^verbatim>\<open>copy_in\<close>.
\<close>

record world =
  commands :: "string list"
  ticks :: nat
  trace_report :: "string \<rightharpoonup> pyval"
  sent :: "(string \<rightharpoonup> pyval) list"
  localsite :: "string option"

definition run :: "env \<Rightarrow> string \<Rightarrow> world \<Rightarrow> (int \<times> string \<times> string) \<times> world" where
  "run E cmd w = (execute E (commands w) cmd, w\<lparr>commands := commands w @ [cmd]\<rparr>)"

definition now :: "env \<Rightarrow> world \<Rightarrow> real \<times> world" where
  "now E w = (time E (ticks w), w\<lparr>ticks := Suc (ticks w)\<rparr>)"

definition trace_update :: "(string \<times> pyval) list \<Rightarrow> world \<Rightarrow> world" where
  "trace_update kvs w = w\<lparr>trace_report := trace_report w ++ map_of kvs\<rparr>"

definition trace_send :: "world \<Rightarrow> world" where
  "trace_send w = w\<lparr>sent := sent w @ [trace_report w]\<rparr>"

text \<open>\<^verbatim>\<open>a or b\<close> where \<^verbatim>\<open>b\<close> is a string.\<close>

definition or_else :: "string option \<Rightarrow> string \<Rightarrow> string" where
  "or_else a b = (case a of None \<Rightarrow> b | Some s \<Rightarrow> if s \<noteq> [] then s else b)"

text \<open>\<^verbatim>\<open>os.path.join\<close> of two components, as \<^verbatim>\<open>posixpath\<close> defines it.\<close>

definition os_path_join :: "string \<Rightarrow> string \<Rightarrow> string" where
  "os_path_join a b =
     (if prefix ''/'' b then b
      else if a = [] \<or> last a = CHR ''/'' then a @ b
      else a @ ''/'' @ b)"

definition copy_command :: string where
  "copy_command = ''xrdcp''"

text \<open>\<^verbatim>\<open>if setup: cmd = "source %s; %s" % (setup, cmd)\<close>\<close>

definition with_setup :: "string option \<Rightarrow> string \<Rightarrow> string" where
  "with_setup setup cmd =
     (case setup of
        None \<Rightarrow> cmd
      | Some s \<Rightarrow> if s \<noteq> [] then ''source '' @ s @ ''; '' @ cmd else cmd)"

subsection \<open>The checksum option\<close>

text \<open>
  \<^verbatim>\<open>_resolve_checksum_option\<close>: the version query, then the help query; \<^verbatim>\<open>rcode\<close> and
  \<^verbatim>\<open>output\<close> are those of the help query when the option is chosen.
\<close>

definition resolve_checksum_option :: "env \<Rightarrow> string option \<Rightarrow> world \<Rightarrow> string \<times> world" where
  "resolve_checksum_option E setup w =
     (let cmd = with_setup setup (copy_command @ '' --version'');
          ((rc, stdout, stderr), w) = run E cmd w;
          cmd = with_setup setup (copy_command @ '' -h'');
          ((rc, stdout, stderr), w) = run E cmd w;
          output = stdout @ stderr;
          checksum_type = ''adler32'';
          coption =
            (if rc \<noteq> 0 then []
             else if py_in ''--cksum'' output then ''--cksum '' @ checksum_type @ '':print''
             else if py_in ''-adler'' output \<and> checksum_type = ''adler32'' then ''-adler''
             else if py_in ''-md5'' output \<and> checksum_type = ''md5'' then ''-md5''
             else [])
      in (coption, w))"

subsection \<open>Staging one file\<close>

text \<open>
  The assignment \<^verbatim>\<open>a, b, c = t\<close>: it binds the components when there are as many as
  targets, and raises \<^verbatim>\<open>ValueError\<close> otherwise.
\<close>

definition unpack :: "nat \<Rightarrow> pyval list \<Rightarrow> exc + pyval list" where
  "unpack n t = (if length t = n then Inr t else Inl ValueError)"

text \<open>
  \<^verbatim>\<open>_stagefile\<close>. The function has no \<^verbatim>\<open>return\<close> statement: when it does not raise, its
  value is \<^verbatim>\<open>None\<close>.
\<close>

definition stagefile ::
  "env \<Rightarrow> string \<Rightarrow> string \<Rightarrow> string \<Rightarrow> int \<Rightarrow> bool \<Rightarrow> string option \<Rightarrow> world
     \<Rightarrow> (exc + pyval) \<times> world" where
  "stagefile E coption source destination fsize is_stagein setup w =
     (let cmd = with_setup setup
                  (copy_command @ '' -np -f '' @ coption @ '' '' @ source @ '' '' @ destination);
          ((rc, stdout, stderr), w) = run E cmd w
      in if rc \<noteq> 0 then
           (let err = resolve_common_transfer_errors E (stdout @ stderr) is_stagein
            in (Inl (PilotException (error err) (rcode err) (state err)), w))
         else
           (case (if coption \<noteq> [] then unpack 3 (get_file_info_from_output stdout) else Inr []) of
              Inl e \<Rightarrow> (Inl e, w)
            | Inr bound \<Rightarrow>
                (let is_verified = True
                 in if \<not> is_verified then
                      (Inl (PilotException ''Copy command failed''
                             (if is_stagein then GETADMISMATCH E else PUTADMISMATCH E)
                             ''AD_MISMATCH''), w)
                    else (Inr PyNone, w))))"

subsection \<open>Stage-in of a batch\<close>

text \<open>The updates of the trace report at the head of the loop body of \<^verbatim>\<open>copy_in\<close>.\<close>

definition trace_file :: "FileSpec \<Rightarrow> world \<Rightarrow> world" where
  "trace_file fspec w =
     (let ls = (if truthy (localsite w) then localsite w else Some (ddmendpoint fspec));
          w = w\<lparr>localsite := ls\<rparr>;
          w = trace_update [(''localSite'', case ls of None \<Rightarrow> PyNone | Some s \<Rightarrow> PyStr s),
                            (''remoteSite'', PyStr (ddmendpoint fspec)),
                            (''filesize'', PyInt (filesize fspec))] w;
          w = trace_update [(''filename'', PyStr (lfn fspec)),
                            (''guid'', PyStr (filter (\<lambda>c. c \<noteq> CHR ''-'') (guid fspec)))] w
      in trace_update [(''scope'', PyStr (scope fspec)), (''dataset'', PyStr (dataset fspec))] w)"

text \<open>\<^verbatim>\<open>trace_report.update(catStart=time())\<close>\<close>

definition cat_start :: "env \<Rightarrow> world \<Rightarrow> world" where
  "cat_start E w = (let (t, w) = now E w in trace_update [(''catStart'', PyFloat t)] w)"

text \<open>\<^verbatim>\<open>trace_report.update(clientState=.., stateReason=.., timeEnd=time()); trace_report.send()\<close>\<close>

definition trace_end :: "env \<Rightarrow> string \<Rightarrow> string \<Rightarrow> world \<Rightarrow> world" where
  "trace_end E client_state reason w =
     (let (t, w) = now E w
      in trace_send (trace_update [(''clientState'', PyStr client_state),
                                   (''stateReason'', PyStr reason),
                                   (''timeEnd'', PyFloat t)] w))"

definition destination_in :: "string option \<Rightarrow> FileSpec \<Rightarrow> string" where
  "destination_in kwdir fspec =
     (let dst = or_else (py_or (workdir fspec) kwdir) ''.''
      in os_path_join dst (lfn fspec))"

text \<open>
  The body of the loop of \<^verbatim>\<open>copy_in\<close> for one file: the exception it raises, if any, the
  file as the body leaves it, and the state.
\<close>

definition copy_in_body ::
  "env \<Rightarrow> bool \<Rightarrow> string option \<Rightarrow> string \<Rightarrow> string option \<Rightarrow> FileSpec \<Rightarrow> world
     \<Rightarrow> exc option \<times> FileSpec \<times> world" where
  "copy_in_body E allow setup coption kwdir fspec w =
     (let w = trace_file fspec w
      in if is_directaccess E fspec \<and> allow then
           (let fspec = fspec\<lparr>status_code := Some 0\<rparr>;
                fspec = fspec\<lparr>status := Some ''remote_io''\<rparr>;
                w = trace_update [(''url'', PyStr (turl fspec)),
                                  (''clientState'', PyStr ''FOUND_ROOT''),
                                  (''stateReason'', PyStr ''direct_access'')] w
            in (None, fspec, trace_send w))
         else
           (let w = cat_start E w;
                destination = destination_in kwdir fspec
            in case stagefile E coption (turl fspec) destination (filesize fspec) True setup w of
                 (Inr v, w) \<Rightarrow>
                   (let fspec = fspec\<lparr>status_code := Some 0\<rparr>;
                        fspec = fspec\<lparr>status := Some ''transferred''\<rparr>
                    in (None, fspec, trace_end E ''DONE'' ''OK'' w))
               | (Inl err, w) \<Rightarrow>
                   (let fspec = fspec\<lparr>status := Some ''failed''\<rparr>;
                        code = (case err of PilotException m c s \<Rightarrow> c
                                | _ \<Rightarrow> STAGEINFAILED E);
                        fspec = fspec\<lparr>status_code := Some code\<rparr>;
                        diagnostics = (case err of PilotException m c s \<Rightarrow> get_detail E m c s
                                       | _ \<Rightarrow> ''(consult log)'');
                        st = ''STAGEIN_ATTEMPT_FAILED''
                    in (Some (PilotException diagnostics code st), fspec,
                        trace_end E st diagnostics w))))"

text \<open>
  The loop over the files: the exception that ended it, if any, the files as the
  caller finds them afterwards, and the state.
\<close>

fun copy_in_loop ::
  "env \<Rightarrow> bool \<Rightarrow> string option \<Rightarrow> string \<Rightarrow> string option \<Rightarrow> FileSpec list \<Rightarrow> world
     \<Rightarrow> exc option \<times> FileSpec list \<times> world" where
  "copy_in_loop E allow setup coption kwdir [] w = (None, [], w)"
| "copy_in_loop E allow setup coption kwdir (fspec # files) w =
     (case copy_in_body E allow setup coption kwdir fspec w of
        (Some e, fspec', w') \<Rightarrow> (Some e, fspec' # files, w')
      | (None, fspec', w') \<Rightarrow>
          (case copy_in_loop E allow setup coption kwdir files w' of
             (r, files', w'') \<Rightarrow> (r, fspec' # files', w'')))"

definition copy_in ::
  "env \<Rightarrow> kwargs \<Rightarrow> FileSpec list \<Rightarrow> world \<Rightarrow> exc option \<times> FileSpec list \<times> world" where
  "copy_in E kw files w =
     (let allow = (case allow_direct_access kw of Some b \<Rightarrow> b | None \<Rightarrow> False);
          setup = copytools_xrdcp_setup kw;
          (coption, w) = resolve_checksum_option E setup w;
          w = w\<lparr>localsite := DQ2_LOCAL_SITE_ID E\<rparr>
      in copy_in_loop E allow setup coption (kw_workdir kw) files w)"

subsection \<open>Stage-out of a batch\<close>

text \<open>
  The body of the loop of \<^verbatim>\<open>copy_out\<close>. Its handler is \<^verbatim>\<open>except PilotException\<close>: any
  other exception leaves the body at once, with the file as it was.
\<close>

definition copy_out_body ::
  "env \<Rightarrow> string option \<Rightarrow> string \<Rightarrow> FileSpec \<Rightarrow> world \<Rightarrow> exc option \<times> FileSpec \<times> world" where
  "copy_out_body E setup coption fspec w =
     (let w = trace_update [(''scope'', PyStr (scope fspec)), (''dataset'', PyStr (dataset fspec)),
                            (''url'', PyStr (surl fspec)), (''filesize'', PyInt (filesize fspec))] w;
          (t, w) = now E w;
          w = trace_update [(''catStart'', PyFloat t), (''filename'', PyStr (lfn fspec)),
                            (''guid'', PyStr (filter (\<lambda>c. c \<noteq> CHR ''-'') (guid fspec)))] w
      in case stagefile E coption (surl fspec) (turl fspec) (filesize fspec) False setup w of
           (Inr v, w) \<Rightarrow>
             (let fspec = fspec\<lparr>status_code := Some 0\<rparr>;
                  fspec = fspec\<lparr>status := Some ''transferred''\<rparr>
              in (None, fspec, trace_end E ''DONE'' ''OK'' w))
         | (Inl (PilotException m c s), w) \<Rightarrow>
             (let fspec = fspec\<lparr>status := Some ''failed''\<rparr>;
                  fspec = fspec\<lparr>status_code := Some c\<rparr>
              in (Some (PilotException m c s), fspec,
                  trace_end E (or_else (Some s) ''STAGEOUT_ATTEMPT_FAILED'') m w))
         | (Inl err, w) \<Rightarrow> (Some err, fspec, w))"

fun copy_out_loop ::
  "env \<Rightarrow> string option \<Rightarrow> string \<Rightarrow> FileSpec list \<Rightarrow> world
     \<Rightarrow> exc option \<times> FileSpec list \<times> world" where
  "copy_out_loop E setup coption [] w = (None, [], w)"
| "copy_out_loop E setup coption (fspec # files) w =
     (case copy_out_body E setup coption fspec w of
        (Some e, fspec', w') \<Rightarrow> (Some e, fspec' # files, w')
      | (None, fspec', w') \<Rightarrow>
          (case copy_out_loop E setup coption files w' of
             (r, files', w'') \<Rightarrow> (r, fspec' # files', w'')))"

definition copy_out ::
  "env \<Rightarrow> kwargs \<Rightarrow> FileSpec list \<Rightarrow> world \<Rightarrow> exc option \<times> FileSpec list \<times> world" where
  "copy_out E kw files w =
     (let setup = copytools_xrdcp_setup kw;
          (coption, w) = resolve_checksum_option E setup w
      in copy_out_loop E setup coption files w)"

subsection \<open>Formatting a line of the copy tool\<close>

text \<open>The decimal text of a natural number, as \<^verbatim>\<open>str\<close> gives it.\<close>

definition digit_char :: "nat \<Rightarrow> char" where
  "digit_char d = ''0123456789'' ! d"

fun str_nat :: "nat \<Rightarrow> string" where
  "str_nat n =
     (if n < 10 then [digit_char n]
      else str_nat (n div 10) @ [digit_char (n mod 10)])"

declare str_nat.simps [simp del]

definition is_hex :: "char \<Rightarrow> bool" where
  "is_hex c = (c \<in> set ''0123456789abcdefABCDEF'')"

text \<open>The line \<^verbatim>\<open>"<t>: <c> <ignored> <s>"\<close>.\<close>

definition format_line :: "string \<Rightarrow> string \<Rightarrow> string \<Rightarrow> nat \<Rightarrow> string" where
  "format_line t c ignored s = t @ '': '' @ c @ '' '' @ ignored @ '' '' @ str_nat s"

subsection \<open>Concrete environments, files and tools\<close>

text \<open>
  A test environment around a given \<^verbatim>\<open>execute\<close> and direct-access predicate: the
  classifier answers with the generic stage-in or stage-out error and the output as its
  message, \<^verbatim>\<open>get_detail\<close> is the message, and the clock counts its calls.
\<close>

definition test_env ::
  "(string list \<Rightarrow> string \<Rightarrow> int \<times> string \<times> string) \<Rightarrow> (FileSpec \<Rightarrow> bool) \<Rightarrow> env" where
  "test_env ex da =
     \<lparr>execute = ex,
      resolve_common_transfer_errors =
        (\<lambda>out is_stagein.
           \<lparr>error = out, rcode = (if is_stagein then 1099 else 1137),
            state = (if is_stagein then ''STAGEIN_FAILED'' else ''STAGEOUT_FAILED'')\<rparr>),
      is_directaccess = da,
      get_detail = (\<lambda>m c s. m),
      time = (\<lambda>n. real n),
      STAGEINFAILED = 1099, STAGEOUTFAILED = 1137, GETADMISMATCH = 1171, PUTADMISMATCH = 1141,
      DQ2_LOCAL_SITE_ID = None\<rparr>"

definition never_direct :: "FileSpec \<Rightarrow> bool" where
  "never_direct fspec = False"

definition test_file :: "string \<Rightarrow> FileSpec" where
  "test_file n =
     \<lparr>lfn = n, guid = ''ab-cd'', scope = ''s'', dataset = ''d'', ddmendpoint = ''SITE'',
      filesize = 1000000, turl = ''root://host//'' @ n, surl = ''/out/'' @ n,
      workdir = None, status = None, status_code = None\<rparr>"

definition world0 :: world where
  "world0 = \<lparr>commands = [], ticks = 0, trace_report = Map.empty, sent = [], localsite = None\<rparr>"

definition no_kwargs :: kwargs where
  "no_kwargs = \<lparr>allow_direct_access = None, copytools_xrdcp_setup = None, kw_workdir = None\<rparr>"

text \<open>A copy tool that always exits 0 and prints a checksum line.\<close>

definition stub_tool :: "string list \<Rightarrow> string \<Rightarrow> int \<times> string \<times> string" where
  "stub_tool h cmd = (0, ''adler32: 1a2b3c 1a2b3c4d 1000000'', [])"

text \<open>
  A copy tool whose help text offers \<^verbatim>\<open>--cksum\<close> and that copies with exit code 0 and
  nothing on standard output.
\<close>

definition quiet_tool :: "string list \<Rightarrow> string \<Rightarrow> int \<times> string \<times> string" where
  "quiet_tool h cmd = (if cmd = ''xrdcp -h'' then (0, ''--cksum <args>'', []) else (0, [], []))"

text \<open>A copy tool that exits 0 and prints a progress line that names no checksum.\<close>

definition progress_tool :: "string list \<Rightarrow> string \<Rightarrow> int \<times> string \<times> string" where
  "progress_tool h cmd = (0, ''[100%] done'', [])"

text \<open>A copy tool whose version query fails while its help query works.\<close>

definition no_version_tool :: "string list \<Rightarrow> string \<Rightarrow> int \<times> string \<times> string" where
  "no_version_tool h cmd =
     (if cmd = ''xrdcp --version'' then (1, [], ''unknown option'')
      else (0, ''--cksum <args>'', []))"

text \<open>A copy tool whose help query fails.\<close>

definition no_help_tool :: "string list \<Rightarrow> string \<Rightarrow> int \<times> string \<times> string" where
  "no_help_tool h cmd =
     (if cmd = ''xrdcp -h'' then (127, [], ''xrdcp: command not found'') else (0, ''v4.8.4'', []))"

text \<open>A copy tool without checksum options that fails on the file \<^verbatim>\<open>b.root\<close> only.\<close>

definition failing_tool :: "string list \<Rightarrow> string \<Rightarrow> int \<times> string \<times> string" where
  "failing_tool h cmd =
     (if py_in ''b.root'' cmd then (1, [], ''No such file or directory'') else (0, [], []))"

text \<open>The direct-access predicate that holds for the file \<^verbatim>\<open>a.root\<close>.\<close>

definition direct_a :: "FileSpec \<Rightarrow> bool" where
  "direct_a fspec = (lfn fspec = ''a.root'')"

text \<open>Keyword arguments that enable direct access.\<close>

definition direct_kwargs :: kwargs where
  "direct_kwargs =
     \<lparr>allow_direct_access = Some True, copytools_xrdcp_setup = None, kw_workdir = None\<rparr>"

section \<open>Properties\<close>

lemmas tool_defs =
  test_env_def never_direct_def test_file_def world0_def no_kwargs_def stub_tool_def
  quiet_tool_def progress_tool_def no_version_tool_def no_help_tool_def failing_tool_def
  direct_a_def

lemmas stage_defs = stagefile_def run_def with_setup_def copy_command_def unpack_def Let_def

lemmas parser_defs =
  get_file_info_from_output_def pattern_def zfill_def py_int_def is_digit_def is_alnum_def
  is_nonspace_def is_space_def digit_val_def

subsection \<open>The timeout estimate\<close>

lemma py_int_of_float_div:
  "0 \<le> f \<Longrightarrow> py_int_of_float (real_of_int f / 500000) = f div 500000"
proof -
  assume "0 \<le> f"
  then have "0 \<le> real_of_int f / 500000" by simp
  moreover have "\<lfloor>real_of_int f / real_of_int 500000\<rfloor> = f div 500000"
    by (rule floor_divide_of_int_eq)
  ultimately show ?thesis by (simp add: py_int_of_float_def)
qed

lemma get_timeout_div: "0 \<le> f \<Longrightarrow> get_timeout f = min (300 + f div 500000) 10800"
  by (simp add: get_timeout_def py_int_of_float_div)

text \<open>
  C8. For every file size \<open>f \<ge> 0\<close>, \<^verbatim>\<open>get_timeout\<close> returns
  \<open>max 300 (min 10800 (300 + f / 500000))\<close> seconds, the quotient cut to an integer as
  the code does; so the estimate lies between 300 and 10800, and it does not decrease
  when the file size grows.
\<close>

theorem get_timeout_formula_bounds_mono:
  assumes "0 \<le> f"
  shows "get_timeout f = max 300 (min 10800 (300 + f div 500000))
       \<and> 300 \<le> get_timeout f \<and> get_timeout f \<le> 10800
       \<and> (\<forall>g. f \<le> g \<longrightarrow> get_timeout f \<le> get_timeout g)"
proof -
  have d: "0 \<le> f div 500000" using assms by (simp add: pos_imp_zdiv_nonneg_iff)
  have t: "get_timeout f = min (300 + f div 500000) 10800" using assms by (rule get_timeout_div)
  have mono: "get_timeout f \<le> get_timeout g" if "f \<le> g" for g
  proof -
    have "0 \<le> g" using assms that by simp
    then have g: "get_timeout g = min (300 + g div 500000) 10800" by (rule get_timeout_div)
    have "f div 500000 \<le> g div 500000" using that by (simp add: zdiv_mono1)
    then show ?thesis using t g by simp
  qed
  show ?thesis using d t mono by auto
qed

theorem get_timeout_witness:
  "get_timeout 1000000 = 302 \<and> get_timeout 0 = 300 \<and> get_timeout 6000000000 = 10800
   \<and> get_timeout 1000000 \<le> get_timeout 6000000000"
  using get_timeout_formula_bounds_mono [of 1000000]
    get_timeout_formula_bounds_mono [of 0] get_timeout_formula_bounds_mono [of 6000000000]
  by simp

subsection \<open>Staging one file\<close>

lemma stub_line:
  "get_file_info_from_output ''adler32: 1a2b3c 1a2b3c4d 1000000'' =
     [PyInt 1000000, PyStr ''001a2b3c'', PyStr ''adler32'']"
  by (simp add: parser_defs numeral_2_eq_2)

text \<open>
  C2. With a copy tool that exits 0 and prints \<^verbatim>\<open>adler32: 1a2b3c 1a2b3c4d 1000000\<close>, and
  a checksum flag requested, the parser recovers the size 1000000, the checksum
  \<^verbatim>\<open>001a2b3c\<close> and the type \<^verbatim>\<open>adler32\<close> from the output, but \<^verbatim>\<open>_stagefile\<close> drops
  them: its value is \<^verbatim>\<open>None\<close>, not an outcome that carries the three.
\<close>

theorem stagefile_returns_none:
  "stagefile (test_env stub_tool never_direct) ''--cksum adler32:print''
     ''root://host//a.root'' ''./a.root'' 1000000 True None world0 =
     (Inr PyNone,
      world0\<lparr>commands :=
        [''xrdcp -np -f --cksum adler32:print root://host//a.root ./a.root'']\<rparr>)
   \<and> get_file_info_from_output (fst (snd (stub_tool [] ''xrdcp''))) =
     [PyInt 1000000, PyStr ''001a2b3c'', PyStr ''adler32'']"
  by (simp add: tool_defs stage_defs stub_line)

text \<open>
  C3. The claim: when the copy command exits 0 and a checksum flag was requested,
  \<^verbatim>\<open>_stagefile\<close> does not fail, whatever the output. The code: when the standard output
  is empty or names none of the markers, the parser returns a tuple of two, the
  assignment to three names raises \<^verbatim>\<open>ValueError\<close>, and \<^verbatim>\<open>_stagefile\<close> fails with it.
\<close>

theorem stagefile_raises_on_marker_free_output:
  assumes "execute E (commands w)
             (with_setup setup
                (copy_command @ '' -np -f '' @ coption @ '' '' @ source @ '' '' @ destination))
           = (0, stdout, stderr)"
    and "coption \<noteq> []"
    and "stdout = [] \<or>
         \<not> (py_in ''xrootd'' stdout \<or> py_in ''XRootD'' stdout \<or> py_in ''adler32'' stdout)"
  shows "fst (stagefile E coption source destination fsize is_stagein setup w) = Inl ValueError"
proof -
  have "get_file_info_from_output stdout = [PyNone, PyNone]"
    using assms(3) by (auto simp: get_file_info_from_output_def)
  then show ?thesis using assms(1,2) by (simp add: stagefile_def run_def unpack_def Let_def)
qed

theorem stagefile_raises_witness:
  "fst (stagefile (test_env quiet_tool never_direct) ''--cksum adler32:print''
         ''root://host//a.root'' ''./a.root'' 1000000 True None world0) = Inl ValueError"
  by (rule stagefile_raises_on_marker_free_output [where stdout = "[]" and stderr = "[]"])
     (simp_all add: tool_defs with_setup_def copy_command_def)

text \<open>
  Every \<^verbatim>\<open>PilotException\<close> that \<^verbatim>\<open>_stagefile\<close> raises is the classified error of a copy
  command that exited with a nonzero code: the branch behind \<^verbatim>\<open>is_verified\<close> is never
  taken.
\<close>

lemma stagefile_pilot_exception_origin:
  assumes "fst (stagefile E coption source destination fsize is_stagein setup w)
           = Inl (PilotException m c s)"
  shows "\<exists>rc out errout.
           execute E (commands w)
             (with_setup setup
                (copy_command @ '' -np -f '' @ coption @ '' '' @ source @ '' '' @ destination))
           = (rc, out, errout) \<and> rc \<noteq> 0
         \<and> m = error (resolve_common_transfer_errors E (out @ errout) is_stagein)
         \<and> c = rcode (resolve_common_transfer_errors E (out @ errout) is_stagein)
         \<and> s = state (resolve_common_transfer_errors E (out @ errout) is_stagein)"
  using assms
  by (auto simp: stagefile_def run_def unpack_def Let_def split: prod.splits if_splits sum.splits)

text \<open>
  C10. The claim: \<^verbatim>\<open>_stagefile\<close> never raises the mismatch error, and every failure it
  raises comes from a nonzero exit code of the copy command. The mismatch branch is
  indeed dead (lemma \<open>stagefile_pilot_exception_origin\<close>), but the code also fails
  after an exit code of 0: with the option \<^verbatim>\<open>-adler\<close> and a progress line as the only
  output, the unpacking of the parser's tuple of two raises \<^verbatim>\<open>ValueError\<close>.
\<close>

theorem stagefile_value_error_at_exit_zero:
  "fst (progress_tool [] ''xrdcp -np -f -adler root://host//a.root ./a.root'') = 0
   \<and> fst (stagefile (test_env progress_tool never_direct) ''-adler''
           ''root://host//a.root'' ''./a.root'' 1000000 True None world0) = Inl ValueError"
  by (simp add: tool_defs stage_defs get_file_info_from_output_def)

subsection \<open>The output parser\<close>

text \<open>
  C5. The claim: on an empty text, or a text without any of the markers \<^verbatim>\<open>xrootd\<close>,
  \<^verbatim>\<open>XRootD\<close>, \<^verbatim>\<open>adler32\<close>, the parser returns the triple of three absent components.
  The code returns a tuple of two \<^verbatim>\<open>None\<close> there.
\<close>

theorem parser_soft_fail_returns_pair:
  assumes "output = [] \<or>
           \<not> (py_in ''xrootd'' output \<or> py_in ''XRootD'' output \<or> py_in ''adler32'' output)"
  shows "get_file_info_from_output output = [PyNone, PyNone]"
  using assms by (auto simp: get_file_info_from_output_def)

theorem parser_soft_fail_witness:
  "get_file_info_from_output [] = [PyNone, PyNone]
   \<and> get_file_info_from_output ''[100%] done'' = [PyNone, PyNone]
   \<and> length (get_file_info_from_output []) = 2"
  using parser_soft_fail_returns_pair [of "[]"] parser_soft_fail_returns_pair [of "''[100%] done''"]
  by simp

subsection \<open>The checksum option\<close>

text \<open>
  C9, as the claim states it, fails: the version query exits with a nonzero code, the
  help query succeeds and offers \<^verbatim>\<open>--cksum\<close>, and the resolver returns that option, not
  the empty string.
\<close>

theorem resolver_ignores_version_exit_code:
  "fst (no_version_tool [] ''xrdcp --version'') \<noteq> 0
   \<and> fst (resolve_checksum_option (test_env no_version_tool never_direct) None world0)
       = ''--cksum adler32:print''"
  by (simp add: tool_defs resolve_checksum_option_def run_def with_setup_def copy_command_def
      Let_def)

text \<open>
  C9, amended. Whenever the help query (\<^verbatim>\<open>xrdcp -h\<close>, the second of the two probes)
  exits with a nonzero code, \<^verbatim>\<open>_resolve_checksum_option\<close> returns the empty string, and
  it returns: it raises nothing, whatever the version query did.
\<close>

theorem resolver_empty_when_help_fails:
  assumes "execute E (commands w @ [with_setup setup (copy_command @ '' --version'')])
                  (with_setup setup (copy_command @ '' -h'')) = (rc, out, errout)"
    and "rc \<noteq> 0"
  shows "fst (resolve_checksum_option E setup w) = []"
  using assms
  by (simp add: resolve_checksum_option_def run_def Let_def split: prod.splits)

theorem resolver_empty_witness:
  "fst (resolve_checksum_option (test_env no_help_tool never_direct) None world0) = []"
  by (rule resolver_empty_when_help_fails [where rc = 127])
     (simp_all add: tool_defs with_setup_def copy_command_def)

subsection \<open>Stage-out of a batch\<close>

lemmas batch_defs =
  copy_out_def copy_out_body_def copy_in_def copy_in_body_def resolve_checksum_option_def
  trace_update_def now_def trace_end_def trace_send_def trace_file_def cat_start_def
  destination_in_def

text \<open>
  C6. The claim: in \<^verbatim>\<open>copy_in\<close> and in \<^verbatim>\<open>copy_out\<close>, no exception leaves the step for a
  file with the status of the file still unset. In \<^verbatim>\<open>copy_out\<close> the handler catches
  \<^verbatim>\<open>PilotException\<close> only: with a copy tool that offers \<^verbatim>\<open>--cksum\<close>, exits 0 and prints
  nothing, the \<^verbatim>\<open>ValueError\<close> of \<^verbatim>\<open>_stagefile\<close> reaches the caller, the file is as it
  was, with no status, and no trace event has been sent.
\<close>

theorem copy_out_value_error_escapes:
  "(case copy_out (test_env quiet_tool never_direct) no_kwargs [test_file ''a.root''] world0 of
      (r, files, w) \<Rightarrow>
        r = Some ValueError \<and> files = [test_file ''a.root'']
        \<and> map status files = [None] \<and> sent w = [])"
  by (simp add: tool_defs stage_defs batch_defs get_file_info_from_output_def)

subsection \<open>Decimal numbers\<close>

lemma digit_cases:
  "(d::nat) < 10 \<Longrightarrow>
     d = 0 \<or> d = 1 \<or> d = 2 \<or> d = 3 \<or> d = 4 \<or> d = 5 \<or> d = 6 \<or> d = 7 \<or> d = 8 \<or> d = 9"
  by arith

lemma is_digit_digit_char:
  assumes "d < 10"
  shows "is_digit (digit_char d)"
  using digit_cases [OF assms] by (elim disjE) (simp_all add: is_digit_def digit_char_def)

lemma digit_val_digit_char:
  assumes "d < 10"
  shows "digit_val (digit_char d) = int d"
  using digit_cases [OF assms] by (elim disjE) (simp_all add: digit_val_def digit_char_def)

lemma str_nat_nonempty: "str_nat n \<noteq> []"
  by (subst str_nat.simps) simp

lemma str_nat_digits: "x \<in> set (str_nat n) \<Longrightarrow> is_digit x"
proof (induction n arbitrary: x rule: str_nat.induct)
  case (1 n)
  show ?case
  proof (cases "n < 10")
    case True
    then have "str_nat n = [digit_char n]" by (subst str_nat.simps) simp
    with 1(2) True show ?thesis by (simp add: is_digit_digit_char)
  next
    case False
    then have "str_nat n = str_nat (n div 10) @ [digit_char (n mod 10)]"
      by (subst str_nat.simps) simp
    with 1(2) have "x \<in> set (str_nat (n div 10)) \<or> x = digit_char (n mod 10)" by auto
    then show ?thesis
    proof
      assume "x \<in> set (str_nat (n div 10))"
      then show ?thesis using 1(1) False by simp
    next
      assume "x = digit_char (n mod 10)"
      then show ?thesis by (simp add: is_digit_digit_char)
    qed
  qed
qed

lemma str_nat_value: "foldl (\<lambda>a c. 10 * a + digit_val c) 0 (str_nat n) = int n"
proof (induction n rule: str_nat.induct)
  case (1 n)
  show ?case
  proof (cases "n < 10")
    case True
    then have "str_nat n = [digit_char n]" by (subst str_nat.simps) simp
    then show ?thesis using True by (simp add: digit_val_digit_char)
  next
    case False
    then have s: "str_nat n = str_nat (n div 10) @ [digit_char (n mod 10)]"
      by (subst str_nat.simps) simp
    have "foldl (\<lambda>a c. 10 * a + digit_val c) 0 (str_nat (n div 10)) = int (n div 10)"
      using 1 False by simp
    then show ?thesis unfolding s
      by (simp add: digit_val_digit_char zdiv_int zmod_int)
  qed
qed

lemma py_int_str_nat: "py_int (str_nat n) = Some (int n)"
  using str_nat_digits [of _ n] by (simp add: py_int_def str_nat_nonempty str_nat_value)

subsection \<open>Matching a formatted line\<close>

lemma takeWhile_token: "\<forall>x \<in> set c. p x \<Longrightarrow> \<not> p y \<Longrightarrow> takeWhile p (c @ y # rest) = c"
  by (induction c) simp_all

lemma takeWhile_all: "\<forall>x \<in> set c. p x \<Longrightarrow> takeWhile p c = c"
  by (induction c) simp_all

lemma rev_upt_longest:
  "c \<noteq> [] \<Longrightarrow> rev [Suc 0..<Suc (length c)] = length c # rev [Suc 0..<length c]"
  by (cases c) simp_all

lemma rmatch_plus_longest:
  assumes "takeWhile p s = c" and "c \<noteq> []" and "k (drop (length c) s) g = Some m"
  shows "rmatch (PlusCls p) s g k = Some m"
  using assms(3) by (simp add: assms(1) rev_upt_longest [OF assms(2)] del: upt_Suc)

lemma rmatch_token:
  assumes "c \<noteq> []" and "\<forall>x \<in> set c. p x" and "\<not> p y"
    and "rmatch r (y # rest) g k = Some m"
  shows "rmatch (Seq (PlusCls p) r) (c @ y # rest) g k = Some m"
proof -
  have "rmatch (PlusCls p) (c @ y # rest) g (\<lambda>s' g'. rmatch r s' g' k) = Some m"
    by (rule rmatch_plus_longest [where c = c])
       (simp_all add: takeWhile_token assms del: rmatch.simps)
  then show ?thesis by (simp only: rmatch.simps(4))
qed

lemma rmatch_group_token:
  assumes "c \<noteq> []" and "\<forall>x \<in> set c. p x" and "\<not> p y"
    and "rmatch r (y # rest) ((name, c) # g) k = Some m"
  shows "rmatch (Seq (Group name (PlusCls p)) r) (c @ y # rest) g k = Some m"
proof -
  have "rmatch (PlusCls p) (c @ y # rest) g
          (\<lambda>s' g'. rmatch r s' ((name, take (length (c @ y # rest) - length s') (c @ y # rest)) # g') k)
        = Some m"
    by (rule rmatch_plus_longest [where c = c])
       (simp_all add: takeWhile_token assms del: rmatch.simps)
  then show ?thesis by (simp only: rmatch.simps(4,5))
qed

lemma rmatch_group_last:
  assumes "c \<noteq> []" and "\<forall>x \<in> set c. p x"
  shows "rmatch (Group name (PlusCls p)) c g (\<lambda>s g. Some g) = Some ((name, c) # g)"
proof -
  have "rmatch (PlusCls p) c g (\<lambda>s' g'. Some ((name, take (length c - length s') c) # g'))
        = Some ((name, c) # g)"
    by (rule rmatch_plus_longest [where c = c]) (simp_all add: takeWhile_all assms)
  then show ?thesis by (simp only: rmatch.simps(5))
qed

lemma rmatch_space: "rmatch (Seq (Lit '' '') r) (CHR '' '' # s) g k = rmatch r s g k"
  by simp

lemma rmatch_type_adler32:
  "rmatch (Seq (Group ''type'' (Alt (Lit ''md5'') (Lit ''adler32''))) (Seq (Lit '': '') r))
     (''adler32: '' @ s) g k
   = rmatch r s ((''type'', ''adler32'') # g) k"
  by simp

lemma rmatch_type_md5:
  assumes "rmatch r s ((''type'', ''md5'') # g) k = Some m"
  shows "rmatch (Seq (Group ''type'' (Alt (Lit ''md5'') (Lit ''adler32''))) (Seq (Lit '': '') r))
     (''md5: '' @ s) g k = Some m"
  using assms by simp

lemma match_tail:
  assumes "c \<noteq> []" and "\<forall>x \<in> set c. is_alnum x" and "ig \<noteq> []" and "\<forall>x \<in> set ig. is_nonspace x"
  shows "rmatch (Seq (Group ''checksum'' (PlusCls is_alnum))
                (Seq (Lit '' '')
                (Seq (PlusCls is_nonspace) (Seq (Lit '' '') (Group ''filesize'' (PlusCls is_digit))))))
           (c @ CHR '' '' # ig @ CHR '' '' # str_nat n) g (\<lambda>s g. Some g)
         = Some ((''filesize'', str_nat n) # (''checksum'', c) # g)"
proof -
  have a: "\<not> is_alnum CHR '' ''" by (simp add: is_alnum_def)
  have b: "\<not> is_nonspace CHR '' ''" by (simp add: is_nonspace_def is_space_def)
  have d: "\<forall>x \<in> set (str_nat n). is_digit x" using str_nat_digits by blast
  show ?thesis
    apply (rule rmatch_group_token [OF assms(1,2) a])
    apply (subst rmatch_space)
    apply (rule rmatch_token [OF assms(3,4) b])
    apply (subst rmatch_space)
    apply (rule rmatch_group_last [OF str_nat_nonempty d])
    done
qed

lemma match_pattern:
  assumes "t = ''md5'' \<or> t = ''adler32''"
    and "c \<noteq> []" and "\<forall>x \<in> set c. is_alnum x" and "ig \<noteq> []" and "\<forall>x \<in> set ig. is_nonspace x"
  shows "rmatch pattern (format_line t c ig n) [] (\<lambda>s g. Some g)
         = Some [(''filesize'', str_nat n), (''checksum'', c), (''type'', t)]"
  using assms(1)
proof
  assume t: "t = ''md5''"
  have "format_line t c ig n = ''md5: '' @ (c @ CHR '' '' # ig @ CHR '' '' # str_nat n)"
    by (simp add: format_line_def t)
  then show ?thesis unfolding pattern_def t
    using rmatch_type_md5 [OF match_tail [OF assms(2-5)]] by (simp del: rmatch.simps)
next
  assume t: "t = ''adler32''"
  have "format_line t c ig n = ''adler32: '' @ (c @ CHR '' '' # ig @ CHR '' '' # str_nat n)"
    by (simp add: format_line_def t)
  then show ?thesis unfolding pattern_def t
    using match_tail [OF assms(2-5), of n "[(''type'', ''adler32'')]"]
    by (simp only: rmatch_type_adler32)
qed

subsection \<open>The round trip of the output parser\<close>

lemma is_hex_alnum: "is_hex x \<Longrightarrow> is_alnum x"
  by (auto simp: is_hex_def is_alnum_def)

lemma zfill_hex:
  assumes "c \<noteq> []" and "length c \<le> 8" and "\<forall>x \<in> set c. is_hex x"
  shows "zfill 8 c = replicate (8 - length c) CHR ''0'' @ c"
proof (cases c)
  case Nil
  with assms(1) show ?thesis by simp
next
  case (Cons x xs)
  then have "is_hex x" using assms(3) by simp
  then have "x \<noteq> CHR ''+'' \<and> x \<noteq> CHR ''-''" by (auto simp: is_hex_def)
  then show ?thesis using Cons assms(2) by (simp add: zfill_def)
qed

lemma re_search_first:
  "s \<noteq> [] \<Longrightarrow> rmatch r s [] (\<lambda>s g. Some g) = Some m \<Longrightarrow> re_search r s = Some m"
  by (cases s) simp_all

lemma format_line_nonempty: "t \<noteq> [] \<Longrightarrow> format_line t c ig n \<noteq> []"
  by (simp add: format_line_def)

text \<open>
  C4, amended. For every checksum \<open>c\<close> of 1 to 8 hexadecimal characters, every size
  \<open>s \<ge> 0\<close> and every non-empty token \<open>ig\<close> without white space, parsing the line
  \<^verbatim>\<open>"<t>: <c> <ig> <s>"\<close> gives the triple of \<open>s\<close>, \<open>c\<close> padded on the left with zeros
  to 8 characters, and \<open>t\<close>, when \<open>t\<close> is \<^verbatim>\<open>adler32\<close>, and when \<open>t\<close> is \<^verbatim>\<open>md5\<close> and the
  line contains one of the markers \<^verbatim>\<open>xrootd\<close>, \<^verbatim>\<open>XRootD\<close>, \<^verbatim>\<open>adler32\<close>.
\<close>

theorem parser_round_trip:
  assumes "t = ''adler32'' \<or>
           (t = ''md5'' \<and> (py_in ''xrootd'' (format_line t c ig s)
                           \<or> py_in ''XRootD'' (format_line t c ig s)
                           \<or> py_in ''adler32'' (format_line t c ig s)))"
    and "c \<noteq> []" and "length c \<le> 8" and "\<forall>x \<in> set c. is_hex x"
    and "ig \<noteq> []" and "\<forall>x \<in> set ig. is_nonspace x"
  shows "get_file_info_from_output (format_line t c ig s) =
           [PyInt (int s), PyStr (replicate (8 - length c) CHR ''0'' @ c), PyStr t]"
proof -
  have t: "t = ''md5'' \<or> t = ''adler32''" using assms(1) by blast
  then have ne: "format_line t c ig s \<noteq> []" by (auto simp: format_line_def)
  have marker: "py_in ''xrootd'' (format_line t c ig s)
                \<or> py_in ''XRootD'' (format_line t c ig s)
                \<or> py_in ''adler32'' (format_line t c ig s)"
    using assms(1)
  proof
    assume "t = ''adler32''"
    then have "py_in ''adler32'' (format_line t c ig s)" by (simp add: format_line_def)
    then show ?thesis by blast
  next
    assume "t = ''md5'' \<and> (py_in ''xrootd'' (format_line t c ig s)
                           \<or> py_in ''XRootD'' (format_line t c ig s)
                           \<or> py_in ''adler32'' (format_line t c ig s))"
    then show ?thesis by blast
  qed
  have alnum: "\<forall>x \<in> set c. is_alnum x" using assms(4) is_hex_alnum by blast
  have "rmatch pattern (format_line t c ig s) [] (\<lambda>s g. Some g)
        = Some [(''filesize'', str_nat s), (''checksum'', c), (''type'', t)]"
    by (rule match_pattern [OF t assms(2) alnum assms(5,6)])
  then have found: "re_search pattern (format_line t c ig s)
        = Some [(''filesize'', str_nat s), (''checksum'', c), (''type'', t)]"
    by (rule re_search_first [OF ne])
  show ?thesis
    using ne marker
    by (simp add: get_file_info_from_output_def found str_nat_nonempty py_int_str_nat
        zfill_hex [OF assms(2,3,4)])
qed

theorem parser_round_trip_witness:
  "get_file_info_from_output (format_line ''adler32'' ''1a2b3c'' ''1a2b3c4d'' 1000000) =
     [PyInt 1000000, PyStr ''001a2b3c'', PyStr ''adler32'']
   \<and> get_file_info_from_output (format_line ''md5'' ''1A2B3C4D'' ''xrootd'' 0) =
     [PyInt 0, PyStr ''1A2B3C4D'', PyStr ''md5'']"
proof
  show "get_file_info_from_output (format_line ''adler32'' ''1a2b3c'' ''1a2b3c4d'' 1000000) =
     [PyInt 1000000, PyStr ''001a2b3c'', PyStr ''adler32'']"
    using parser_round_trip [of "''adler32''" "''1a2b3c''" "''1a2b3c4d''" 1000000]
    by (simp add: is_hex_def is_nonspace_def is_space_def numeral_2_eq_2)
  show "get_file_info_from_output (format_line ''md5'' ''1A2B3C4D'' ''xrootd'' 0) =
     [PyInt 0, PyStr ''1A2B3C4D'', PyStr ''md5'']"
    using parser_round_trip [of "''md5''" "''1A2B3C4D''" "''xrootd''" 0]
    by (simp add: is_hex_def is_nonspace_def is_space_def format_line_def)
qed

text \<open>
  C4, as the claim states it, fails for the type \<^verbatim>\<open>md5\<close>: the line
  \<^verbatim>\<open>md5: 1a2b3c x 100\<close> contains none of the markers that the parser asks for before
  it matches, and the parser returns the tuple of two \<^verbatim>\<open>None\<close>.
\<close>

theorem parser_md5_line_counterexample:
  "format_line ''md5'' ''1a2b3c'' ''x'' 100 = ''md5: 1a2b3c x 100''
   \<and> get_file_info_from_output (format_line ''md5'' ''1a2b3c'' ''x'' 100) = [PyNone, PyNone]"
proof -
  have "str_nat 100 = ''100''"
    by (simp add: str_nat.simps digit_char_def)
  then have f: "format_line ''md5'' ''1a2b3c'' ''x'' 100 = ''md5: 1a2b3c x 100''"
    by (simp add: format_line_def)
  show ?thesis unfolding f by (simp add: get_file_info_from_output_def)
qed

subsection \<open>Stage-in of a batch\<close>

lemma trace_end_effect:
  "commands (trace_end E st reason w) = commands w
   \<and> sent (trace_end E st reason w) = sent w @ [trace_report (trace_end E st reason w)]
   \<and> trace_report (trace_end E st reason w) ''clientState'' = Some (PyStr st)
   \<and> trace_report (trace_end E st reason w) ''stateReason'' = Some (PyStr reason)
   \<and> trace_report (trace_end E st reason w) ''timeEnd'' = Some (PyFloat (time E (ticks w)))"
  by (simp add: trace_end_def now_def trace_update_def trace_send_def)

lemma trace_file_commands: "commands (trace_file fspec w) = commands w \<and> sent (trace_file fspec w) = sent w"
  by (simp add: trace_file_def trace_update_def Let_def)

lemma copy_in_body_direct:
  assumes "is_directaccess E fspec" and "allow"
  shows "copy_in_body E allow setup coption kwdir fspec w =
           (None, fspec\<lparr>status := Some ''remote_io'', status_code := Some 0\<rparr>,
            trace_send (trace_update [(''url'', PyStr (turl fspec)),
                                      (''clientState'', PyStr ''FOUND_ROOT''),
                                      (''stateReason'', PyStr ''direct_access'')]
                          (trace_file fspec w)))"
  using assms by (simp add: copy_in_body_def Let_def)

lemma copy_in_body_failure:
  assumes "\<not> (is_directaccess E fspec \<and> allow)"
    and "stagefile E coption (turl fspec) (destination_in kwdir fspec) (filesize fspec) True setup
           (cat_start E (trace_file fspec w)) = (Inl err, w2)"
  shows "copy_in_body E allow setup coption kwdir fspec w =
           (Some (PilotException
                    (case err of PilotException m c s \<Rightarrow> get_detail E m c s
                     | ValueError \<Rightarrow> ''(consult log)'')
                    (case err of PilotException m c s \<Rightarrow> c | ValueError \<Rightarrow> STAGEINFAILED E)
                    ''STAGEIN_ATTEMPT_FAILED''),
            fspec\<lparr>status := Some ''failed'',
                  status_code :=
                    Some (case err of PilotException m c s \<Rightarrow> c | ValueError \<Rightarrow> STAGEINFAILED E)\<rparr>,
            trace_end E ''STAGEIN_ATTEMPT_FAILED''
              (case err of PilotException m c s \<Rightarrow> get_detail E m c s
               | ValueError \<Rightarrow> ''(consult log)'') w2)"
  using assms by (auto simp: copy_in_body_def Let_def)

lemma copy_in_body_no_exception:
  assumes "copy_in_body E allow setup coption kwdir fspec w = (None, fspec', w')"
  shows "fspec' = fspec\<lparr>status := Some (if is_directaccess E fspec \<and> allow
                                            then ''remote_io'' else ''transferred''),
                         status_code := Some 0\<rparr>"
  using assms
  by (auto simp: copy_in_body_def Let_def split: if_splits prod.splits sum.splits)

lemma copy_in_loop_no_exception:
  assumes "copy_in_loop E allow setup coption kwdir files w = (None, files', w')"
  shows "files' = map (\<lambda>fspec. fspec\<lparr>status := Some (if is_directaccess E fspec \<and> allow
                                                         then ''remote_io'' else ''transferred''),
                                      status_code := Some 0\<rparr>) files"
  using assms
proof (induction files arbitrary: w files' w')
  case Nil
  then show ?case by simp
next
  case (Cons fspec files)
  obtain r f1 w1 where b: "copy_in_body E allow setup coption kwdir fspec w = (r, f1, w1)"
    by (cases "copy_in_body E allow setup coption kwdir fspec w") auto
  obtain r2 fs2 w2 where l: "copy_in_loop E allow setup coption kwdir files w1 = (r2, fs2, w2)"
    by (cases "copy_in_loop E allow setup coption kwdir files w1") auto
  from Cons.prems b l have r: "r = None" and r2: "r2 = None" and f: "files' = f1 # fs2"
    by (auto split: option.splits)
  from b r have "f1 = fspec\<lparr>status := Some (if is_directaccess E fspec \<and> allow
                                            then ''remote_io'' else ''transferred''),
                         status_code := Some 0\<rparr>"
    by (simp add: copy_in_body_no_exception)
  moreover from l r2 have "fs2 = map (\<lambda>fspec. fspec\<lparr>status := Some (if is_directaccess E fspec \<and> allow
                                                         then ''remote_io'' else ''transferred''),
                                      status_code := Some 0\<rparr>) files"
    using Cons.IH by simp
  ultimately show ?case using f by simp
qed

lemma copy_in_loop_append:
  assumes "copy_in_loop E allow setup coption kwdir pre w = (None, pre', w1)"
  shows "copy_in_loop E allow setup coption kwdir (pre @ files) w =
           (case copy_in_loop E allow setup coption kwdir files w1 of
              (r, files', w') \<Rightarrow> (r, pre' @ files', w'))"
  using assms
proof (induction pre arbitrary: w pre' w1)
  case Nil
  then show ?case by (simp split: prod.splits)
next
  case (Cons fspec pre)
  obtain r f1 wa where b: "copy_in_body E allow setup coption kwdir fspec w = (r, f1, wa)"
    by (cases "copy_in_body E allow setup coption kwdir fspec w") auto
  obtain r2 fs2 wb where l: "copy_in_loop E allow setup coption kwdir pre wa = (r2, fs2, wb)"
    by (cases "copy_in_loop E allow setup coption kwdir pre wa") auto
  from Cons.prems b l have r: "r = None" and r2: "r2 = None" and f: "pre' = f1 # fs2"
    and w: "wb = w1"
    by (auto split: option.splits)
  have "copy_in_loop E allow setup coption kwdir (pre @ files) wa =
           (case copy_in_loop E allow setup coption kwdir files w1 of
              (r, files', w') \<Rightarrow> (r, fs2 @ files', w'))"
    using Cons.IH l r2 w by simp
  then show ?case using b r f by (simp split: prod.splits)
qed

lemma copy_in_loop_failure:
  assumes "copy_in_loop E allow setup coption kwdir pre w = (None, pre', w1)"
    and "\<not> (is_directaccess E fspec \<and> allow)"
    and "stagefile E coption (turl fspec) (destination_in kwdir fspec) (filesize fspec) True setup
           (cat_start E (trace_file fspec w1)) = (Inl err, w2)"
  shows "copy_in_loop E allow setup coption kwdir (pre @ fspec # post) w =
           (Some (PilotException
                    (case err of PilotException m c s \<Rightarrow> get_detail E m c s
                     | ValueError \<Rightarrow> ''(consult log)'')
                    (case err of PilotException m c s \<Rightarrow> c | ValueError \<Rightarrow> STAGEINFAILED E)
                    ''STAGEIN_ATTEMPT_FAILED''),
            pre' @ fspec\<lparr>status := Some ''failed'',
                  status_code :=
                    Some (case err of PilotException m c s \<Rightarrow> c | ValueError \<Rightarrow> STAGEINFAILED E)\<rparr>
              # post,
            trace_end E ''STAGEIN_ATTEMPT_FAILED''
              (case err of PilotException m c s \<Rightarrow> get_detail E m c s
               | ValueError \<Rightarrow> ''(consult log)'') w2)"
  by (simp add: copy_in_loop_append [OF assms(1)] copy_in_body_failure [OF assms(2,3)])

text \<open>
  C1. Stage-in of a batch in which the files before position \<open>k\<close> go through and
  \<^verbatim>\<open>_stagefile\<close> fails on the file at position \<open>k\<close>: \<^verbatim>\<open>copy_in\<close> raises a
  \<^verbatim>\<open>PilotException\<close>; every file before \<open>k\<close> has the status code 0 and the status
  \<^verbatim>\<open>transferred\<close> (\<^verbatim>\<open>remote_io\<close> when it was accessed directly); the file at \<open>k\<close> has the
  status \<^verbatim>\<open>failed\<close> and the code of the error when that is a \<^verbatim>\<open>PilotException\<close>, the
  code \<^verbatim>\<open>STAGEINFAILED\<close> otherwise; the files after \<open>k\<close> are as they were; no command
  runs after the failed one, and the last event sent is the one of the failure.
\<close>

theorem copy_in_stops_at_first_failure:
  assumes "allow = (case allow_direct_access kw of Some b \<Rightarrow> b | None \<Rightarrow> False)"
    and "setup = copytools_xrdcp_setup kw"
    and "resolve_checksum_option E setup w = (coption, w0)"
    and "copy_in_loop E allow setup coption (kw_workdir kw) pre
           (w0\<lparr>localsite := DQ2_LOCAL_SITE_ID E\<rparr>) = (None, pre', w1)"
    and "\<not> (is_directaccess E fspec \<and> allow)"
    and "stagefile E coption (turl fspec) (destination_in (kw_workdir kw) fspec) (filesize fspec)
           True setup (cat_start E (trace_file fspec w1)) = (Inl err, w2)"
  shows "\<exists>diagnostics code w'.
           code = (case err of PilotException m c s \<Rightarrow> c | ValueError \<Rightarrow> STAGEINFAILED E)
         \<and> diagnostics = (case err of PilotException m c s \<Rightarrow> get_detail E m c s
                            | ValueError \<Rightarrow> ''(consult log)'')
         \<and> copy_in E kw (pre @ fspec # post) w =
             (Some (PilotException diagnostics code ''STAGEIN_ATTEMPT_FAILED''),
              map (\<lambda>f. f\<lparr>status := Some (if is_directaccess E f \<and> allow
                                           then ''remote_io'' else ''transferred''),
                         status_code := Some 0\<rparr>) pre
              @ fspec\<lparr>status := Some ''failed'', status_code := Some code\<rparr> # post,
              w')
         \<and> commands w' = commands w2
         \<and> sent w' = sent w2 @ [trace_report w']
         \<and> trace_report w' ''clientState'' = Some (PyStr ''STAGEIN_ATTEMPT_FAILED'')
         \<and> trace_report w' ''stateReason'' = Some (PyStr diagnostics)"
proof -
  let ?d = "case err of PilotException m c s \<Rightarrow> get_detail E m c s | ValueError \<Rightarrow> ''(consult log)''"
  let ?c = "case err of PilotException m c s \<Rightarrow> c | ValueError \<Rightarrow> STAGEINFAILED E"
  let ?w = "trace_end E ''STAGEIN_ATTEMPT_FAILED'' ?d w2"
  have pre': "pre' = map (\<lambda>f. f\<lparr>status := Some (if is_directaccess E f \<and> allow
                                           then ''remote_io'' else ''transferred''),
                         status_code := Some 0\<rparr>) pre"
    by (rule copy_in_loop_no_exception [OF assms(4)])
  have "copy_in E kw (pre @ fspec # post) w =
          copy_in_loop E allow setup coption (kw_workdir kw) (pre @ fspec # post)
            (w0\<lparr>localsite := DQ2_LOCAL_SITE_ID E\<rparr>)"
    using assms(3) by (simp add: copy_in_def assms(1,2) Let_def)
  also have "\<dots> = (Some (PilotException ?d ?c ''STAGEIN_ATTEMPT_FAILED''),
                   pre' @ fspec\<lparr>status := Some ''failed'', status_code := Some ?c\<rparr> # post, ?w)"
    by (rule copy_in_loop_failure [OF assms(4,5,6)])
  finally have run: "copy_in E kw (pre @ fspec # post) w =
      (Some (PilotException ?d ?c ''STAGEIN_ATTEMPT_FAILED''),
       pre' @ fspec\<lparr>status := Some ''failed'', status_code := Some ?c\<rparr> # post, ?w)" .
  show ?thesis
    apply (rule exI [where x = "?d"])
    apply (rule exI [where x = "?c"])
    apply (rule exI [where x = "?w"])
    using run pre' trace_end_effect [of E "''STAGEIN_ATTEMPT_FAILED''" ?d w2]
    apply simp
    done
qed

theorem copy_in_stops_witness:
  "(case copy_in (test_env failing_tool never_direct) no_kwargs
           [test_file ''a.root'', test_file ''b.root'', test_file ''c.root''] world0 of
      (r, files, w) \<Rightarrow>
        r = Some (PilotException ''No such file or directory'' 1099 ''STAGEIN_ATTEMPT_FAILED'')
        \<and> map status files = [Some ''transferred'', Some ''failed'', None]
        \<and> map status_code files = [Some 0, Some 1099, None])"
proof -
  let ?E = "test_env failing_tool never_direct"
  let ?b = "test_file ''b.root''"
  define X where "X = resolve_checksum_option ?E None world0"
  define L where "L = copy_in_loop ?E False None [] None [test_file ''a.root'']
                        ((snd X)\<lparr>localsite := DQ2_LOCAL_SITE_ID ?E\<rparr>)"
  define S where "S = stagefile ?E [] (turl ?b) (destination_in None ?b) (filesize ?b) True None
                        (cat_start ?E (trace_file ?b (snd (snd L))))"
  have kw: "kw_workdir no_kwargs = None" by (simp add: no_kwargs_def)
  have h1: "False = (case allow_direct_access no_kwargs of Some b \<Rightarrow> b | None \<Rightarrow> False)"
    by (simp add: no_kwargs_def)
  have h2: "None = copytools_xrdcp_setup no_kwargs" by (simp add: no_kwargs_def)
  have h3: "resolve_checksum_option ?E None world0 = ([], snd X)"
    by (simp add: X_def tool_defs resolve_checksum_option_def run_def with_setup_def
        copy_command_def Let_def)
  have "fst L = None"
    by (simp add: L_def X_def tool_defs stage_defs batch_defs py_or_def truthy_def or_else_def
        os_path_join_def)
  then have "L = (None, fst (snd L), snd (snd L))" by (simp add: prod_eq_iff)
  then have h4: "copy_in_loop ?E False None [] (kw_workdir no_kwargs) [test_file ''a.root'']
                   ((snd X)\<lparr>localsite := DQ2_LOCAL_SITE_ID ?E\<rparr>) = (None, fst (snd L), snd (snd L))"
    unfolding kw L_def [symmetric] .
  have h5: "\<not> (is_directaccess ?E ?b \<and> False)" by simp
  have "fst S = Inl (PilotException ''No such file or directory'' 1099 ''STAGEIN_FAILED'')"
    by (simp add: S_def tool_defs stage_defs destination_in_def py_or_def truthy_def or_else_def
        os_path_join_def)
  then have "S = (Inl (PilotException ''No such file or directory'' 1099 ''STAGEIN_FAILED''), snd S)"
    by (simp add: prod_eq_iff)
  then have h6: "stagefile ?E [] (turl ?b) (destination_in (kw_workdir no_kwargs) ?b) (filesize ?b)
                   True None (cat_start ?E (trace_file ?b (snd (snd L))))
                 = (Inl (PilotException ''No such file or directory'' 1099 ''STAGEIN_FAILED''), snd S)"
    unfolding kw S_def [symmetric] .
  show ?thesis
    using copy_in_stops_at_first_failure [OF h1 h2 h3 h4 h5 h6, of "[test_file ''c.root'']"]
    by (auto simp: tool_defs)
qed

text \<open>
  C7. \<^verbatim>\<open>copy_in\<close> called with \<^verbatim>\<open>allow_direct_access\<close> true, on a batch whose files
  before some position go through: when the direct-access predicate holds for the file
  at that position, the driver sets its status to \<^verbatim>\<open>remote_io\<close> and its status code to
  0, runs no command for it, sends exactly one trace event, with the client state
  \<^verbatim>\<open>FOUND_ROOT\<close> and the reason \<^verbatim>\<open>direct_access\<close>, and goes on with the files after it.
\<close>

theorem copy_in_direct_access_shortcut:
  assumes "allow_direct_access kw = Some True"
    and "is_directaccess E fspec"
    and "resolve_checksum_option E (copytools_xrdcp_setup kw) w = (coption, w0)"
    and "copy_in_loop E True (copytools_xrdcp_setup kw) coption (kw_workdir kw) pre
           (w0\<lparr>localsite := DQ2_LOCAL_SITE_ID E\<rparr>) = (None, pre', w1)"
  shows "\<exists>w'. copy_in_body E True (copytools_xrdcp_setup kw) coption (kw_workdir kw) fspec w1 =
                 (None, fspec\<lparr>status := Some ''remote_io'', status_code := Some 0\<rparr>, w')
          \<and> commands w' = commands w1
          \<and> sent w' = sent w1 @ [trace_report w']
          \<and> trace_report w' ''clientState'' = Some (PyStr ''FOUND_ROOT'')
          \<and> trace_report w' ''stateReason'' = Some (PyStr ''direct_access'')
          \<and> copy_in E kw (pre @ fspec # post) w =
              (case copy_in_loop E True (copytools_xrdcp_setup kw) coption (kw_workdir kw) post w' of
                 (r, post', w'') \<Rightarrow>
                   (r, pre' @ fspec\<lparr>status := Some ''remote_io'', status_code := Some 0\<rparr> # post',
                    w''))"
proof -
  let ?stp = "copytools_xrdcp_setup kw"
  let ?f = "fspec\<lparr>status := Some ''remote_io'', status_code := Some 0\<rparr>"
  let ?w = "trace_send (trace_update [(''url'', PyStr (turl fspec)),
                                      (''clientState'', PyStr ''FOUND_ROOT''),
                                      (''stateReason'', PyStr ''direct_access'')]
                          (trace_file fspec w1))"
  have body: "copy_in_body E True ?stp coption (kw_workdir kw) fspec w1 = (None, ?f, ?w)"
    by (rule copy_in_body_direct [OF assms(2)]) simp
  have eff: "commands ?w = commands w1 \<and> sent ?w = sent w1 @ [trace_report ?w]
             \<and> trace_report ?w ''clientState'' = Some (PyStr ''FOUND_ROOT'')
             \<and> trace_report ?w ''stateReason'' = Some (PyStr ''direct_access'')"
    by (simp add: trace_send_def trace_update_def trace_file_commands)
  have "copy_in E kw (pre @ fspec # post) w =
          copy_in_loop E True ?stp coption (kw_workdir kw) (pre @ fspec # post)
            (w0\<lparr>localsite := DQ2_LOCAL_SITE_ID E\<rparr>)"
    using assms(1,3) by (simp add: copy_in_def Let_def)
  also have "\<dots> = (case copy_in_loop E True ?stp coption (kw_workdir kw) (fspec # post) w1 of
                      (r, files', w') \<Rightarrow> (r, pre' @ files', w'))"
    by (rule copy_in_loop_append [OF assms(4)])
  also have "\<dots> = (case copy_in_loop E True ?stp coption (kw_workdir kw) post ?w of
                      (r, post', w'') \<Rightarrow> (r, pre' @ ?f # post', w''))"
    by (simp add: body split: prod.splits)
  finally have run: "copy_in E kw (pre @ fspec # post) w =
      (case copy_in_loop E True ?stp coption (kw_workdir kw) post ?w of
         (r, post', w'') \<Rightarrow> (r, pre' @ ?f # post', w''))" .
  show ?thesis
    apply (rule exI [where x = "?w"])
    using body eff run apply simp
    done
qed

theorem copy_in_direct_access_shortcut_witness:
  "(case copy_in (test_env failing_tool direct_a) direct_kwargs
           [test_file ''c.root'', test_file ''a.root'', test_file ''d.root''] world0 of
      (r, files, w) \<Rightarrow>
        r = None
        \<and> map status files = [Some ''transferred'', Some ''remote_io'', Some ''transferred'']
        \<and> map status_code files = [Some 0, Some 0, Some 0]
        \<and> commands w = [''xrdcp --version'', ''xrdcp -h'',
                         ''xrdcp -np -f  root://host//c.root ./c.root'',
                         ''xrdcp -np -f  root://host//d.root ./d.root'']
        \<and> length (sent w) = 3)"
proof -
  let ?E = "test_env failing_tool direct_a"
  let ?a = "test_file ''a.root''"
  define X where "X = resolve_checksum_option ?E None world0"
  define L where "L = copy_in_loop ?E True None [] None [test_file ''c.root'']
                        ((snd X)\<lparr>localsite := DQ2_LOCAL_SITE_ID ?E\<rparr>)"
  have kw: "copytools_xrdcp_setup direct_kwargs = None" "kw_workdir direct_kwargs = None"
    by (simp_all add: direct_kwargs_def)
  have h1: "allow_direct_access direct_kwargs = Some True" by (simp add: direct_kwargs_def)
  have h2: "is_directaccess ?E ?a" by (simp add: tool_defs)
  have "fst X = []"
    by (simp add: X_def tool_defs resolve_checksum_option_def run_def with_setup_def
        copy_command_def Let_def)
  then have "X = ([], snd X)" by (simp add: prod_eq_iff)
  then have h3: "resolve_checksum_option ?E (copytools_xrdcp_setup direct_kwargs) world0
                 = ([], snd X)"
    unfolding kw X_def [symmetric] .
  have L: "fst L = None \<and> map status (fst (snd L)) = [Some ''transferred'']
           \<and> map status_code (fst (snd L)) = [Some 0]
           \<and> commands (snd (snd L)) = [''xrdcp --version'', ''xrdcp -h'',
                                        ''xrdcp -np -f  root://host//c.root ./c.root'']
           \<and> length (sent (snd (snd L))) = 1"
    by (simp add: L_def X_def tool_defs stage_defs batch_defs py_or_def truthy_def or_else_def
        os_path_join_def)
  then have "L = (None, fst (snd L), snd (snd L))" by (simp add: prod_eq_iff)
  then have h4: "copy_in_loop ?E True (copytools_xrdcp_setup direct_kwargs) []
                   (kw_workdir direct_kwargs) [test_file ''c.root'']
                   ((snd X)\<lparr>localsite := DQ2_LOCAL_SITE_ID ?E\<rparr>) = (None, fst (snd L), snd (snd L))"
    unfolding kw L_def [symmetric] .
  obtain w' where c: "commands w' = commands (snd (snd L))"
    and s: "sent w' = sent (snd (snd L)) @ [trace_report w']"
    and run: "copy_in ?E direct_kwargs ([test_file ''c.root''] @ ?a # [test_file ''d.root'']) world0 =
               (case copy_in_loop ?E True None [] None [test_file ''d.root''] w' of
                  (r, post', w'') \<Rightarrow>
                    (r, fst (snd L) @ ?a\<lparr>status := Some ''remote_io'', status_code := Some 0\<rparr> # post',
                     w''))"
    using copy_in_direct_access_shortcut [OF h1 h2 h3 h4, of "[test_file ''d.root'']"]
    unfolding kw by blast
  obtain r post' w'' where l: "copy_in_loop ?E True None [] None [test_file ''d.root''] w' = (r, post', w'')"
    by (cases "copy_in_loop ?E True None [] None [test_file ''d.root''] w'") auto
  have d: "r = None \<and> map status post' = [Some ''transferred'']
           \<and> map status_code post' = [Some 0]
           \<and> commands w'' = commands w' @ [''xrdcp -np -f  root://host//d.root ./d.root'']
           \<and> length (sent w'') = Suc (length (sent w'))"
    using l
    by (auto simp: tool_defs stage_defs batch_defs py_or_def truthy_def or_else_def
        os_path_join_def)
  have len: "length (sent w') = 2" using s L by (metis length_append_singleton numeral_2_eq_2 One_nat_def)
  show ?thesis
    using run l d c L len by (simp add: numeral_3_eq_3)
qed

end
